theory Spec2Isabelle
  imports Complex_Main "HOL-Library.Word"
begin

section \<open>The group call settings box of \<^verbatim>\<open>calls/calls_group_settings.cpp\<close>\<close>

text \<open>
  The file holds two functions: \<^verbatim>\<open>SaveCallJoinMuted\<close>, which sends the join-muted
  setting to the server, and \<^verbatim>\<open>GroupCallSettingsBox\<close>, which fills a generic box with
  rows and installs the click, timer and closing handlers. Everything the handlers touch
  is made explicit: the channel object, the log of requests handed to the API sender, the
  clipboard and the toasts form the \<open>world\<close>; the local \<^verbatim>\<open>State\<close> struct together with
  the values captured by the lambdas forms the \<open>box\<close>.
\<close>

subsection \<open>Data\<close>

type_synonym uint64 = "64 word"
type_synonym QString = string

text \<open>Opaque handles that the code only passes on: \<^verbatim>\<open>call->input()\<close> and \<^verbatim>\<open>channel->input\<close>.\<close>

datatype MTPInputGroupCall = MTP_inputGroupCall uint64 uint64
datatype MTPInputPeer = MTP_inputChannel uint64 uint64

text \<open>\<^verbatim>\<open>Data::GroupCall\<close>, as far as this file reads it through its accessors.\<close>

record GroupCallData =
  id_call :: uint64
  input_call :: MTPInputGroupCall
  joinMuted :: bool
  canChangeJoinMuted :: bool

text \<open>
  \<^verbatim>\<open>ChannelData\<close>. The accessors \<^verbatim>\<open>canManageCall()\<close>, \<^verbatim>\<open>hasUsername()\<close> and
  \<^verbatim>\<open>canHaveInviteLink()\<close> are declared outside this file; each is a field here, so that
  nothing is assumed about how they are computed.
\<close>

record ChannelData =
  call :: "GroupCallData option"
  canManageCall :: bool
  hasUsername :: bool
  username :: QString
  inviteLink :: QString
  canHaveInviteLink :: bool
  input_channel :: MTPInputPeer

datatype Flag = f_join_muted

datatype MTPRequest =
    MTPphone_ToggleGroupCallSettings "Flag set" MTPInputGroupCall bool
  | MTPmessages_ExportChatInvite MTPInputPeer

datatype MTPExportedChatInvite = chatInviteEmpty | chatInviteExported QString

datatype lang_key =
    lng_group_call_new_muted
  | lng_group_call_speakers
  | lng_group_call_microphone
  | lng_group_call_share
  | lng_group_call_end
  | lng_group_call_settings_title
  | lng_box_done
  | lng_create_channel_link_copied

text \<open>
  What lives outside the box: the channel, the requests sent through
  \<^verbatim>\<open>channel->session().api()\<close> (oldest first), the clipboard text and the toasts shown.
\<close>

record world =
  channel :: ChannelData
  requests :: "MTPRequest list"
  clipboard :: QString
  toasts :: "lang_key list"

text \<open>
  Constants and services that the file uses and does not define: the two timing constants,
  \<^verbatim>\<open>Main::Session::createInternalLinkFull\<close>, and the current device names and id.
\<close>

record env =
  kMicTestUpdateInterval :: int
  kMicTestAnimationDuration :: int
  createInternalLinkFull :: "QString \<Rightarrow> QString"
  callInputDeviceId :: QString
  CurrentAudioOutputName :: QString
  CurrentAudioInputName :: QString

subsection \<open>\<^verbatim>\<open>SaveCallJoinMuted\<close>\<close>

text \<open>\<^verbatim>\<open>call->setJoinMutedLocally(joinMuted)\<close>: the setter of the value that \<^verbatim>\<open>joinMuted()\<close> reads.\<close>

definition setJoinMutedLocally :: "bool \<Rightarrow> GroupCallData \<Rightarrow> GroupCallData" where
  "setJoinMutedLocally muted c = c\<lparr>joinMuted := muted\<rparr>"

definition send :: "MTPRequest \<Rightarrow> world \<Rightarrow> world" where
  "send r w = w\<lparr>requests := requests w @ [r]\<rparr>"

definition SaveCallJoinMuted :: "world \<Rightarrow> uint64 \<Rightarrow> bool \<Rightarrow> world" where
  "SaveCallJoinMuted w callId muted =
     (case call (channel w) of
        None \<Rightarrow> w
      | Some c \<Rightarrow>
          if id_call c \<noteq> callId
             \<or> \<not> canManageCall (channel w)
             \<or> \<not> canChangeJoinMuted c
             \<or> joinMuted c = muted
          then w
          else send
                 (MTPphone_ToggleGroupCallSettings {f_join_muted} (input_call c) muted)
                 (w\<lparr>channel := (channel w)\<lparr>call := Some (setJoinMutedLocally muted c)\<rparr>\<rparr>))"

subsection \<open>The box and its state\<close>

text \<open>
  \<^verbatim>\<open>Webrtc::AudioInputTester\<close> is used through three calls only: its constructor and
  \<^verbatim>\<open>setDeviceId\<close>, which both fix the device, and \<^verbatim>\<open>getAndResetLevel\<close>, whose return value
  is an input of the timer callback below.
\<close>

record AudioInputTester =
  deviceId :: QString

text \<open>The arguments of the last \<^verbatim>\<open>micLevelAnimation.start(callback, from, to, duration)\<close>.\<close>

record Animation =
  anim_from :: real
  anim_to :: real
  anim_duration :: int

text \<open>\<^verbatim>\<open>base::Timer\<close>: the period given to \<^verbatim>\<open>callEach\<close>, and whether a callback is set.\<close>

record Timer =
  callEach :: "int option"
  hasCallback :: bool

datatype style = settingsButton | settingsAttentionButton

datatype control =
    Checkbox lang_key bool
  | Skip
  | ButtonWithLabel lang_key style
  | LevelMeter
  | Button lang_key style

datatype chooser_callback = OutputNameCallback | InputNameCallback

datatype shown_box = ChooseAudioInputBox chooser_callback | LeaveGroupCallBox

text \<open>
  The first eight fields are the local \<^verbatim>\<open>State\<close> struct (\<open>micTestLevel\<close> is the value
  last given to the level meter, \<open>None\<close> before any \<^verbatim>\<open>setValue\<close>; float levels are
  reals, the code only stores and passes them). \<open>id_box\<close>, \<open>joinMuted_box\<close> and
  \<open>canChangeJoinMuted_box\<close> are the constants \<^verbatim>\<open>id\<close>, \<^verbatim>\<open>joinMuted\<close> and
  \<^verbatim>\<open>canChangeJoinMuted\<close> captured by the lambdas; \<open>muteJoined\<close> is the checkbox pointer
  (\<open>None\<close> for \<^verbatim>\<open>nullptr\<close>) with its checked state. \<open>rows\<close> is the vertical layout from top
  to bottom, \<open>shown\<close> the boxes shown through the delegate. \<open>weakBox\<close> and \<open>weakCall\<close>
  say whether the weak pointers still point to a live object.
\<close>

record box =
  outputNameStream :: "QString list"
  inputNameStream :: "QString list"
  micTester :: AudioInputTester
  micTestLevel :: "real option"
  micLevel :: real
  micLevelAnimation :: "Animation option"
  levelUpdateTimer :: Timer
  generatingLink :: bool
  id_box :: uint64
  joinMuted_box :: bool
  canChangeJoinMuted_box :: bool
  muteJoined :: "bool option"
  rows :: "control list"
  title :: "lang_key option"
  buttons :: "lang_key list"
  shown :: "shown_box list"
  weakBox :: bool
  weakCall :: bool

subsection \<open>\<^verbatim>\<open>GroupCallSettingsBox\<close>: building the box\<close>

definition lookupLink :: "env \<Rightarrow> ChannelData \<Rightarrow> QString" where
  "lookupLink e c =
     (if hasUsername c then createInternalLinkFull e (username c) else inviteLink c)"

text \<open>
  The body of \<^verbatim>\<open>GroupCallSettingsBox(box, call)\<close> up to the installation of the handlers;
  \<open>callId\<close> is \<^verbatim>\<open>call->id()\<close> and the channel of the world is \<^verbatim>\<open>call->channel()\<close>.
\<close>

definition GroupCallSettingsBox :: "env \<Rightarrow> uint64 \<Rightarrow> world \<Rightarrow> box" where
  "GroupCallSettingsBox e callId w =
     (let chan = channel w;
          real = call chan;
          goodReal = (case real of None \<Rightarrow> False | Some r \<Rightarrow> id_call r = callId);
          joinMuted0 = (case real of None \<Rightarrow> False
                        | Some r \<Rightarrow> if goodReal then joinMuted r else False);
          canChangeJoinMuted0 = (case real of None \<Rightarrow> False
                                 | Some r \<Rightarrow> goodReal \<and> canChangeJoinMuted r);
          muteJoined0 = (if canManageCall chan \<and> canChangeJoinMuted0
                         then Some joinMuted0 else None)
      in \<lparr> outputNameStream = [],
           inputNameStream = [],
           micTester = \<lparr> deviceId = callInputDeviceId e \<rparr>,
           micTestLevel = None,
           micLevel = 0,
           micLevelAnimation = None,
           levelUpdateTimer =
             \<lparr> callEach = Some (kMicTestUpdateInterval e), hasCallback = True \<rparr>,
           generatingLink = False,
           id_box = callId,
           joinMuted_box = joinMuted0,
           canChangeJoinMuted_box = canChangeJoinMuted0,
           muteJoined = muteJoined0,
           rows =
             (case muteJoined0 of
                None \<Rightarrow> []
              | Some checked \<Rightarrow> [Checkbox lng_group_call_new_muted checked, Skip])
             @ [ButtonWithLabel lng_group_call_speakers settingsButton,
                ButtonWithLabel lng_group_call_microphone settingsButton,
                LevelMeter,
                Skip]
             @ (if lookupLink e chan \<noteq> [] \<or> canHaveInviteLink chan
                then [Button lng_group_call_share settingsButton] else [])
             @ (if canManageCall chan
                then [Button lng_group_call_end settingsAttentionButton] else []),
           title = Some lng_group_call_settings_title,
           buttons = [lng_box_done],
           shown = [],
           weakBox = True,
           weakCall = True \<rparr>)"

text \<open>
  The labels of the two device rows: the name current when the box was built, then the
  last name fired into the row's event stream.
\<close>

definition speakersLabel :: "env \<Rightarrow> box \<Rightarrow> QString" where
  "speakersLabel e d = last (CurrentAudioOutputName e # outputNameStream d)"

definition microphoneLabel :: "env \<Rightarrow> box \<Rightarrow> QString" where
  "microphoneLabel e d = last (CurrentAudioInputName e # inputNameStream d)"

subsection \<open>The handlers\<close>

text \<open>Both device rows show \<^verbatim>\<open>ChooseAudioInputBox\<close>; they differ in the callback given to it.\<close>

definition speakersClicked :: "box \<Rightarrow> box" where
  "speakersClicked d = d\<lparr>shown := shown d @ [ChooseAudioInputBox OutputNameCallback]\<rparr>"

definition microphoneClicked :: "box \<Rightarrow> box" where
  "microphoneClicked d = d\<lparr>shown := shown d @ [ChooseAudioInputBox InputNameCallback]\<rparr>"

definition outputNameCallback :: "QString \<Rightarrow> QString \<Rightarrow> box \<Rightarrow> box" where
  "outputNameCallback devId name d = d\<lparr>outputNameStream := outputNameStream d @ [name]\<rparr>"

definition inputNameCallback :: "QString \<Rightarrow> QString \<Rightarrow> box \<Rightarrow> box" where
  "inputNameCallback devId name d =
     d\<lparr>inputNameStream := inputNameStream d @ [name],
       micTester := (micTester d)\<lparr>deviceId := devId\<rparr>\<rparr>"

text \<open>\<^verbatim>\<open>crl::guard(box, f)\<close>: \<open>f\<close> runs only while the box is alive.\<close>

definition guard :: "(box \<Rightarrow> box) \<Rightarrow> box \<Rightarrow> box" where
  "guard f d = (if weakBox d then f d else d)"

text \<open>
  The callback of \<open>levelUpdateTimer\<close>; \<open>polled\<close> is what
  \<^verbatim>\<open>state->micTester->getAndResetLevel()\<close> returns at this firing.
\<close>

definition levelUpdate :: "env \<Rightarrow> real \<Rightarrow> box \<Rightarrow> box" where
  "levelUpdate e polled d =
     (let was = micLevel d;
          d1 = d\<lparr>micLevel := polled\<rparr>
      in d1\<lparr>micLevelAnimation :=
              Some \<lparr> anim_from = was, anim_to = micLevel d1,
                     anim_duration = kMicTestAnimationDuration e \<rparr>\<rparr>)"

text \<open>
  The callback of the animation; \<open>v\<close> is what \<^verbatim>\<open>micLevelAnimation.value(micLevel)\<close>
  returns at this frame.
\<close>

definition animationCallback :: "real \<Rightarrow> box \<Rightarrow> box" where
  "animationCallback v d = d\<lparr>micTestLevel := Some v\<rparr>"

text \<open>\<^verbatim>\<open>copyLink\<close>; \<open>alive\<close> is the test of \<^verbatim>\<open>weakBox\<close>.\<close>

definition copyLink :: "env \<Rightarrow> bool \<Rightarrow> world \<Rightarrow> bool \<times> world" where
  "copyLink e alive w =
     (let link = lookupLink e (channel w)
      in if link = [] then (False, w)
         else (let w1 = w\<lparr>clipboard := link\<rparr>
               in (True,
                   if alive
                   then w1\<lparr>toasts := toasts w1 @ [lng_create_channel_link_copied]\<rparr>
                   else w1)))"

text \<open>\<^verbatim>\<open>channel->setInviteLink(link)\<close>: the setter of the value that \<^verbatim>\<open>inviteLink()\<close> reads.\<close>

definition setInviteLink :: "QString \<Rightarrow> ChannelData \<Rightarrow> ChannelData" where
  "setInviteLink link c = c\<lparr>inviteLink := link\<rparr>"

text \<open>The click handler of the share button.\<close>

definition shareClicked :: "env \<Rightarrow> box \<times> world \<Rightarrow> box \<times> world" where
  "shareClicked e s =
     (case s of (d, w) \<Rightarrow>
        (case copyLink e (weakBox d) w of (copied, w1) \<Rightarrow>
           if \<not> copied \<and> \<not> generatingLink d
           then (d\<lparr>generatingLink := True\<rparr>,
                 send (MTPmessages_ExportChatInvite (input_channel (channel w1))) w1)
           else (d, w1)))"

text \<open>The \<^verbatim>\<open>done\<close> handler of the \<^verbatim>\<open>ExportChatInvite\<close> request.\<close>

definition exportDone :: "env \<Rightarrow> bool \<Rightarrow> MTPExportedChatInvite \<Rightarrow> world \<Rightarrow> world" where
  "exportDone e alive result w =
     (case result of
        chatInviteExported link \<Rightarrow>
          snd (copyLink e alive (w\<lparr>channel := setInviteLink link (channel w)\<rparr>))
      | chatInviteEmpty \<Rightarrow> w)"

text \<open>The handler subscribed to \<^verbatim>\<open>box->boxClosing()\<close>.\<close>

definition boxClosing :: "box \<Rightarrow> world \<Rightarrow> world" where
  "boxClosing d w =
     (if canChangeJoinMuted_box d
      then (case muteJoined d of
              None \<Rightarrow> w
            | Some checked \<Rightarrow>
                if checked \<noteq> joinMuted_box d
                then SaveCallJoinMuted w (id_box d) checked
                else w)
      else w)"

text \<open>\<^verbatim>\<open>box->closeBox()\<close>: the closing handler runs, then the box is gone.\<close>

definition closeBox :: "box \<times> world \<Rightarrow> box \<times> world" where
  "closeBox s = (case s of (d, w) \<Rightarrow> (d\<lparr>weakBox := False\<rparr>, boxClosing d w))"

text \<open>The click handler of the end-call button.\<close>

definition endClicked :: "box \<times> world \<Rightarrow> box \<times> world" where
  "endClicked s =
     (case s of (d, w) \<Rightarrow>
        if weakCall d
        then closeBox (d\<lparr>shown := shown d @ [LeaveGroupCallBox]\<rparr>, w)
        else (d, w))"

subsection \<open>The life of a box\<close>

text \<open>
  What can happen to an open box. The user acts on the controls that exist; the timer and
  the animation fire; the server answers the export request (\<open>ExportDone\<close>) or fails it
  (\<open>ExportFail\<close>, for which the code installs no handler); the call object may die; the
  rest of the application may change the channel at any time. Widget events reach the box
  only while it is alive, the answer of the server is handled by the API sender of the
  session even afterwards.
\<close>

datatype event =
    SetChecked bool
  | SpeakersClicked
  | OutputChosen QString QString
  | MicrophoneClicked
  | InputChosen QString QString
  | TimerFired real
  | AnimationFrame real
  | ShareClicked
  | ExportDone MTPExportedChatInvite
  | ExportFail
  | EndClicked
  | DoneClicked
  | CallDestroyed
  | ChannelChanged ChannelData

fun step :: "env \<Rightarrow> event \<Rightarrow> box \<times> world \<Rightarrow> box \<times> world" where
  "step e (SetChecked b) (d, w) =
     (if weakBox d \<and> muteJoined d \<noteq> None then (d\<lparr>muteJoined := Some b\<rparr>, w) else (d, w))"
| "step e SpeakersClicked (d, w) = (if weakBox d then (speakersClicked d, w) else (d, w))"
| "step e (OutputChosen devId name) (d, w) = (guard (outputNameCallback devId name) d, w)"
| "step e MicrophoneClicked (d, w) = (if weakBox d then (microphoneClicked d, w) else (d, w))"
| "step e (InputChosen devId name) (d, w) = (guard (inputNameCallback devId name) d, w)"
| "step e (TimerFired polled) (d, w) =
     (if weakBox d then (levelUpdate e polled d, w) else (d, w))"
| "step e (AnimationFrame v) (d, w) =
     (if weakBox d \<and> micLevelAnimation d \<noteq> None then (animationCallback v d, w) else (d, w))"
| "step e ShareClicked (d, w) =
     (if weakBox d \<and> Button lng_group_call_share settingsButton \<in> set (rows d)
      then shareClicked e (d, w) else (d, w))"
| "step e (ExportDone result) (d, w) = (d, exportDone e (weakBox d) result w)"
| "step e ExportFail (d, w) = (d, w)"
| "step e EndClicked (d, w) =
     (if weakBox d \<and> Button lng_group_call_end settingsAttentionButton \<in> set (rows d)
      then endClicked (d, w) else (d, w))"
| "step e DoneClicked (d, w) = (if weakBox d then closeBox (d, w) else (d, w))"
| "step e CallDestroyed (d, w) = (d\<lparr>weakCall := False\<rparr>, w)"
| "step e (ChannelChanged c) (d, w) = (d, w\<lparr>channel := c\<rparr>)"

fun run :: "env \<Rightarrow> event list \<Rightarrow> box \<times> world \<Rightarrow> box \<times> world" where
  "run e [] s = s"
| "run e (ev # evs) s = run e evs (step e ev s)"

text \<open>Opening the box for the call \<open>callId\<close> in the world \<open>w\<close>.\<close>

definition openBox :: "env \<Rightarrow> uint64 \<Rightarrow> world \<Rightarrow> box \<times> world" where
  "openBox e callId w = (GroupCallSettingsBox e callId w, w)"

text \<open>Counting the requests of each kind in a log.\<close>

fun isExport :: "MTPRequest \<Rightarrow> bool" where
  "isExport (MTPmessages_ExportChatInvite p) = True"
| "isExport (MTPphone_ToggleGroupCallSettings fl c b) = False"

fun isToggle :: "MTPRequest \<Rightarrow> bool" where
  "isToggle (MTPphone_ToggleGroupCallSettings fl c b) = True"
| "isToggle (MTPmessages_ExportChatInvite p) = False"

definition exports :: "world \<Rightarrow> nat" where
  "exports w = length (filter isExport (requests w))"

definition toggles :: "world \<Rightarrow> MTPRequest list" where
  "toggles w = filter isToggle (requests w)"

text \<open>The number of export requests that the flag of the box accounts for.\<close>

definition pending :: "box \<Rightarrow> nat" where
  "pending d = (if generatingLink d then 1 else 0)"

subsection \<open>Sample values\<close>

text \<open>
  A call with id 7 in a private channel (no username, no invite link yet) whose user is an
  administrator, and the same channel seen by a plain member.
\<close>

definition env0 :: env where
  "env0 = \<lparr> kMicTestUpdateInterval = 100, kMicTestAnimationDuration = 200,
            createInternalLinkFull = (\<lambda>query. ''https://t.me/'' @ query),
            callInputDeviceId = ''default'',
            CurrentAudioOutputName = ''Speakers'',
            CurrentAudioInputName = ''Microphone'' \<rparr>"

definition call0 :: GroupCallData where
  "call0 = \<lparr> id_call = 7, input_call = MTP_inputGroupCall 7 99,
             joinMuted = False, canChangeJoinMuted = True \<rparr>"

definition adminChannel :: ChannelData where
  "adminChannel = \<lparr> call = Some call0, canManageCall = True, hasUsername = False,
                    username = [], inviteLink = [], canHaveInviteLink = True,
                    input_channel = MTP_inputChannel 5 11 \<rparr>"

definition memberChannel :: ChannelData where
  "memberChannel = \<lparr> call = Some call0, canManageCall = False, hasUsername = False,
                     username = [], inviteLink = [], canHaveInviteLink = False,
                     input_channel = MTP_inputChannel 5 11 \<rparr>"

definition publicChannel :: ChannelData where
  "publicChannel = adminChannel\<lparr>hasUsername := True, username := ''chat''\<rparr>"

definition adminWorld :: world where
  "adminWorld = \<lparr> channel = adminChannel, requests = [], clipboard = ''old'', toasts = [] \<rparr>"

definition memberWorld :: world where
  "memberWorld = \<lparr> channel = memberChannel, requests = [], clipboard = ''old'', toasts = [] \<rparr>"

text \<open>The administrator's world once the channel has an invite link.\<close>

definition linkWorld :: world where
  "linkWorld =
     adminWorld\<lparr>channel := adminChannel\<lparr>inviteLink := ''https://t.me/joinchat/AAAA''\<rparr>\<rparr>"

text \<open>
  The administrator's channel after the right to manage the call was withdrawn, and after
  join-muted was set on the call from elsewhere.
\<close>

definition revokedChannel :: ChannelData where
  "revokedChannel = adminChannel\<lparr>canManageCall := False\<rparr>"

definition mutedChannel :: ChannelData where
  "mutedChannel = adminChannel\<lparr>call := Some (call0\<lparr>joinMuted := True\<rparr>)\<rparr>"

section \<open>Results\<close>

subsection \<open>\<^verbatim>\<open>SaveCallJoinMuted\<close>\<close>

text \<open>
  Claim C1. \<^verbatim>\<open>SaveCallJoinMuted\<close> is a guarded remote update. If the channel has no current
  call, or the call's id differs from \<open>callId\<close>, or the user cannot manage the call, or
  join-muted cannot be changed, or the call's join-muted value already equals the requested
  one, the world is returned as it was: no state changes and no request is sent. Otherwise
  join-muted is set on the call, exactly one request is appended to the log, namely
  \<^verbatim>\<open>ToggleGroupCallSettings\<close> with the flag \<open>f_join_muted\<close>, the call's input and the
  requested value, and nothing else changes.
\<close>

theorem SaveCallJoinMuted_guarded:
  "((call (channel w) = None
      \<or> (\<exists>c. call (channel w) = Some c
            \<and> (id_call c \<noteq> callId \<or> \<not> canManageCall (channel w)
                 \<or> \<not> canChangeJoinMuted c \<or> joinMuted c = muted)))
     \<longrightarrow> SaveCallJoinMuted w callId muted = w)
   \<and> (\<forall>c. call (channel w) = Some c \<and> id_call c = callId \<and> canManageCall (channel w)
           \<and> canChangeJoinMuted c \<and> joinMuted c \<noteq> muted
        \<longrightarrow> SaveCallJoinMuted w callId muted =
              w\<lparr>channel := (channel w)\<lparr>call := Some (c\<lparr>joinMuted := muted\<rparr>)\<rparr>,
                requests := requests w
                  @ [MTPphone_ToggleGroupCallSettings {f_join_muted} (input_call c) muted]\<rparr>)"
  by (auto simp: SaveCallJoinMuted_def send_def setJoinMutedLocally_def)

theorem SaveCallJoinMuted_guarded_witness:
  "id_call call0 \<noteq> 8
   \<and> SaveCallJoinMuted adminWorld 8 True = adminWorld
   \<and> call (channel adminWorld) = Some call0 \<and> id_call call0 = 7
   \<and> canManageCall (channel adminWorld) \<and> canChangeJoinMuted call0
   \<and> joinMuted call0 \<noteq> True
   \<and> requests (SaveCallJoinMuted adminWorld 7 True) =
       [MTPphone_ToggleGroupCallSettings {f_join_muted} (MTP_inputGroupCall 7 99) True]
   \<and> call (channel (SaveCallJoinMuted adminWorld 7 True)) = Some (call0\<lparr>joinMuted := True\<rparr>)"
proof -
  have h1: "call (channel adminWorld) = Some call0 \<and> id_call call0 \<noteq> 8"
    by (simp add: call0_def adminChannel_def adminWorld_def)
  have h2: "call (channel adminWorld) = Some call0 \<and> id_call call0 = 7
      \<and> canManageCall (channel adminWorld) \<and> canChangeJoinMuted call0
      \<and> joinMuted call0 \<noteq> True"
    by (simp add: call0_def adminChannel_def adminWorld_def)
  from h1 SaveCallJoinMuted_guarded [of adminWorld 8 True]
  have c1: "SaveCallJoinMuted adminWorld 8 True = adminWorld" by blast
  from h2 SaveCallJoinMuted_guarded [of adminWorld 7 True]
  have c2: "SaveCallJoinMuted adminWorld 7 True =
      adminWorld\<lparr>channel := (channel adminWorld)\<lparr>call := Some (call0\<lparr>joinMuted := True\<rparr>)\<rparr>,
        requests := requests adminWorld
          @ [MTPphone_ToggleGroupCallSettings {f_join_muted} (input_call call0) True]\<rparr>"
    by blast
  have c3: "requests (SaveCallJoinMuted adminWorld 7 True) =
       [MTPphone_ToggleGroupCallSettings {f_join_muted} (MTP_inputGroupCall 7 99) True]"
    unfolding c2 by (simp add: call0_def adminChannel_def adminWorld_def)
  have c4: "call (channel (SaveCallJoinMuted adminWorld 7 True)) = Some (call0\<lparr>joinMuted := True\<rparr>)"
    unfolding c2 by simp
  from h1 h2 c1 c3 c4 show ?thesis by simp
qed

subsection \<open>The link that is shared\<close>

text \<open>
  Claim C9. \<open>lookupLink\<close> prefers the public link. For a channel with a username it
  returns the internal link built from the username, whatever the stored invite link is
  (replacing the stored link never changes the result). For a channel without a username
  it returns the stored invite link. Hence the result follows the stored invite link only
  when the channel has no username.
\<close>

theorem lookupLink_prefers_public:
  "(hasUsername c \<longrightarrow>
      lookupLink e c = createInternalLinkFull e (username c)
      \<and> (\<forall>l. lookupLink e (c\<lparr>inviteLink := l\<rparr>) = lookupLink e c))
   \<and> (\<not> hasUsername c \<longrightarrow> lookupLink e c = inviteLink c)
   \<and> ((\<forall>l. lookupLink e (c\<lparr>inviteLink := l\<rparr>) = l) \<longrightarrow> \<not> hasUsername c)"
proof (intro conjI impI)
  assume all: "\<forall>l. lookupLink e (c\<lparr>inviteLink := l\<rparr>) = l"
  show "\<not> hasUsername c"
  proof
    assume u: "hasUsername c"
    from all have "lookupLink e (c\<lparr>inviteLink := []\<rparr>) = []"
      and "lookupLink e (c\<lparr>inviteLink := ''x''\<rparr>) = ''x''" by blast+
    with u show False by (simp add: lookupLink_def)
  qed
qed (simp_all add: lookupLink_def)

theorem lookupLink_prefers_public_witness:
  "hasUsername (publicChannel\<lparr>inviteLink := ''https://t.me/joinchat/AAAA''\<rparr>)
   \<and> lookupLink env0 (publicChannel\<lparr>inviteLink := ''https://t.me/joinchat/AAAA''\<rparr>)
       = ''https://t.me/chat''
   \<and> \<not> hasUsername (adminChannel\<lparr>inviteLink := ''https://t.me/joinchat/AAAA''\<rparr>)
   \<and> lookupLink env0 (adminChannel\<lparr>inviteLink := ''https://t.me/joinchat/AAAA''\<rparr>)
       = ''https://t.me/joinchat/AAAA''
   \<and> (\<forall>l. lookupLink env0 (adminChannel\<lparr>inviteLink := l\<rparr>) = l)
   \<and> \<not> hasUsername adminChannel"
proof -
  let ?p = "publicChannel\<lparr>inviteLink := ''https://t.me/joinchat/AAAA''\<rparr>"
  let ?a = "adminChannel\<lparr>inviteLink := ''https://t.me/joinchat/AAAA''\<rparr>"
  have h1: "hasUsername ?p" by (simp add: env0_def call0_def adminChannel_def publicChannel_def)
  have h2: "\<not> hasUsername ?a" by (simp add: env0_def call0_def adminChannel_def publicChannel_def)
  from h1 lookupLink_prefers_public [of ?p env0]
  have "lookupLink env0 ?p = createInternalLinkFull env0 (username ?p)" by blast
  then have c1: "lookupLink env0 ?p = ''https://t.me/chat''" by (simp add: env0_def call0_def adminChannel_def publicChannel_def)
  from h2 lookupLink_prefers_public [of ?a env0]
  have "lookupLink env0 ?a = inviteLink ?a" by blast
  then have c2: "lookupLink env0 ?a = ''https://t.me/joinchat/AAAA''" by simp
  have h3: "\<forall>l. lookupLink env0 (adminChannel\<lparr>inviteLink := l\<rparr>) = l"
    by (simp add: lookupLink_def adminChannel_def)
  from h3 lookupLink_prefers_public [of adminChannel env0]
  have c3: "\<not> hasUsername adminChannel" by blast
  from h1 h2 h3 c1 c2 c3 show ?thesis by blast
qed

text \<open>
  Claim C4. When \<open>lookupLink\<close> yields the empty string, \<open>copyLink\<close> returns false
  and leaves the world, the clipboard included, as it was. When it yields a non-empty
  link, \<open>copyLink\<close> returns true, the clipboard holds that link, the "link copied" toast
  is shown if the box is alive and not shown otherwise, and the channel and the request
  log are untouched.
\<close>

theorem copyLink_result:
  "(lookupLink e (channel w) = [] \<longrightarrow> copyLink e alive w = (False, w))
   \<and> (lookupLink e (channel w) \<noteq> [] \<longrightarrow>
        fst (copyLink e alive w) = True
        \<and> clipboard (snd (copyLink e alive w)) = lookupLink e (channel w)
        \<and> toasts (snd (copyLink e alive w)) =
            (if alive then toasts w @ [lng_create_channel_link_copied] else toasts w)
        \<and> channel (snd (copyLink e alive w)) = channel w
        \<and> requests (snd (copyLink e alive w)) = requests w)"
  by (simp add: copyLink_def Let_def)

theorem copyLink_result_witness:
  "lookupLink env0 (channel adminWorld) = []
   \<and> copyLink env0 True adminWorld = (False, adminWorld)
   \<and> lookupLink env0 (channel linkWorld) \<noteq> []
   \<and> fst (copyLink env0 True linkWorld) = True
   \<and> clipboard (snd (copyLink env0 True linkWorld)) = ''https://t.me/joinchat/AAAA''
   \<and> toasts (snd (copyLink env0 True linkWorld)) = [lng_create_channel_link_copied]
   \<and> clipboard (snd (copyLink env0 False linkWorld)) = ''https://t.me/joinchat/AAAA''
   \<and> toasts (snd (copyLink env0 False linkWorld)) = []"
proof -
  have h1: "lookupLink env0 (channel adminWorld) = []"
    by (simp add: lookupLink_def env0_def call0_def adminChannel_def adminWorld_def linkWorld_def)
  have l: "lookupLink env0 (channel linkWorld) = ''https://t.me/joinchat/AAAA''"
    by (simp add: lookupLink_def env0_def call0_def adminChannel_def adminWorld_def linkWorld_def)
  then have h2: "lookupLink env0 (channel linkWorld) \<noteq> []" by simp
  have t: "toasts linkWorld = []" by (simp add: env0_def call0_def adminChannel_def adminWorld_def linkWorld_def)
  from h1 copyLink_result [of env0 adminWorld True]
  have c1: "copyLink env0 True adminWorld = (False, adminWorld)" by blast
  from h2 l t copyLink_result [of env0 linkWorld True]
  have c2: "fst (copyLink env0 True linkWorld) = True
      \<and> clipboard (snd (copyLink env0 True linkWorld)) = ''https://t.me/joinchat/AAAA''
      \<and> toasts (snd (copyLink env0 True linkWorld)) = [lng_create_channel_link_copied]"
    by simp
  from h2 l t copyLink_result [of env0 linkWorld False]
  have c3: "clipboard (snd (copyLink env0 False linkWorld)) = ''https://t.me/joinchat/AAAA''
      \<and> toasts (snd (copyLink env0 False linkWorld)) = []"
    by simp
  from h1 h2 c1 c2 c3 show ?thesis by simp
qed

subsection \<open>The device rows\<close>

text \<open>
  Claim C6. The callback given to the chooser of the microphone row fires the chosen name
  into the row's label and sets the device id of the microphone tester to the chosen id;
  the speakers label stays. The callback given to the chooser of the speakers row fires the
  chosen name into the speakers label and changes nothing else: the microphone tester and
  the microphone label are as before. While the box is alive, these callbacks are what a
  choice in the respective chooser runs.
\<close>

theorem chooser_callbacks:
  "microphoneLabel e (inputNameCallback devId name d) = name
   \<and> deviceId (micTester (inputNameCallback devId name d)) = devId
   \<and> speakersLabel e (inputNameCallback devId name d) = speakersLabel e d
   \<and> speakersLabel e (outputNameCallback devId name d) = name
   \<and> outputNameCallback devId name d = d\<lparr>outputNameStream := outputNameStream d @ [name]\<rparr>
   \<and> micTester (outputNameCallback devId name d) = micTester d
   \<and> microphoneLabel e (outputNameCallback devId name d) = microphoneLabel e d
   \<and> (weakBox d \<longrightarrow>
        step e (InputChosen devId name) (d, w) = (inputNameCallback devId name d, w)
        \<and> step e (OutputChosen devId name) (d, w) = (outputNameCallback devId name d, w))"
  by (simp add: inputNameCallback_def outputNameCallback_def microphoneLabel_def
      speakersLabel_def guard_def)

theorem chooser_callbacks_witness:
  "weakBox (fst (openBox env0 7 adminWorld))
   \<and> microphoneLabel env0
        (fst (step env0 (InputChosen ''usb1'' ''USB microphone'') (openBox env0 7 adminWorld)))
       = ''USB microphone''
   \<and> deviceId (micTester
        (fst (step env0 (InputChosen ''usb1'' ''USB microphone'') (openBox env0 7 adminWorld))))
       = ''usb1''
   \<and> speakersLabel env0
        (fst (step env0 (OutputChosen ''hdmi'' ''Monitor'') (openBox env0 7 adminWorld)))
       = ''Monitor''
   \<and> deviceId (micTester
        (fst (step env0 (OutputChosen ''hdmi'' ''Monitor'') (openBox env0 7 adminWorld))))
       = ''default''"
proof -
  let ?d = "GroupCallSettingsBox env0 7 adminWorld"
  have h: "weakBox ?d" by (simp add: GroupCallSettingsBox_def Let_def)
  have t: "deviceId (micTester ?d) = ''default''"
    by (simp add: GroupCallSettingsBox_def Let_def env0_def call0_def adminChannel_def adminWorld_def)
  note c = chooser_callbacks [of env0 "''usb1''" "''USB microphone''" ?d adminWorld]
  note c' = chooser_callbacks [of env0 "''hdmi''" "''Monitor''" ?d adminWorld]
  from h c have s1: "step env0 (InputChosen ''usb1'' ''USB microphone'') (?d, adminWorld)
      = (inputNameCallback ''usb1'' ''USB microphone'' ?d, adminWorld)" by blast
  from h c' have s2: "step env0 (OutputChosen ''hdmi'' ''Monitor'') (?d, adminWorld)
      = (outputNameCallback ''hdmi'' ''Monitor'' ?d, adminWorld)" by blast
  from c have a: "microphoneLabel env0 (inputNameCallback ''usb1'' ''USB microphone'' ?d)
       = ''USB microphone''
     \<and> deviceId (micTester (inputNameCallback ''usb1'' ''USB microphone'' ?d)) = ''usb1''"
    by blast
  from c' t have b: "speakersLabel env0 (outputNameCallback ''hdmi'' ''Monitor'' ?d) = ''Monitor''
     \<and> deviceId (micTester (outputNameCallback ''hdmi'' ''Monitor'' ?d)) = ''default''"
    by metis
  from h a b show ?thesis unfolding openBox_def s1 s2 by simp
qed

subsection \<open>The level meter\<close>








subsection \<open>The rows of the box\<close>

text \<open>
  Claim C7, as the code has it. For every call the box has the level meter and the two
  device rows (speakers and microphone). The share row is there exactly when a link can be
  looked up or the channel can have an invite link, and the end-call row exactly when the
  user can manage the call; the box has no other plain button rows.
\<close>

theorem rows_of_box:
  "LevelMeter \<in> set (rows (GroupCallSettingsBox e callId w))
   \<and> ButtonWithLabel lng_group_call_speakers settingsButton
        \<in> set (rows (GroupCallSettingsBox e callId w))
   \<and> ButtonWithLabel lng_group_call_microphone settingsButton
        \<in> set (rows (GroupCallSettingsBox e callId w))
   \<and> (Button lng_group_call_share settingsButton \<in> set (rows (GroupCallSettingsBox e callId w))
        \<longleftrightarrow> lookupLink e (channel w) \<noteq> [] \<or> canHaveInviteLink (channel w))
   \<and> (Button lng_group_call_end settingsAttentionButton
          \<in> set (rows (GroupCallSettingsBox e callId w))
        \<longleftrightarrow> canManageCall (channel w))
   \<and> (\<forall>k s. Button k s \<in> set (rows (GroupCallSettingsBox e callId w)) \<longrightarrow>
          (k, s) = (lng_group_call_share, settingsButton)
          \<or> (k, s) = (lng_group_call_end, settingsAttentionButton))"
  by (auto simp: GroupCallSettingsBox_def Let_def split: option.splits if_splits)

theorem rows_of_box_witness:
  "lookupLink env0 (channel adminWorld) = [] \<and> canHaveInviteLink (channel adminWorld)
   \<and> canManageCall (channel adminWorld)
   \<and> LevelMeter \<in> set (rows (GroupCallSettingsBox env0 7 adminWorld))
   \<and> Button lng_group_call_share settingsButton
        \<in> set (rows (GroupCallSettingsBox env0 7 adminWorld))
   \<and> Button lng_group_call_end settingsAttentionButton
        \<in> set (rows (GroupCallSettingsBox env0 7 adminWorld))
   \<and> \<not> canHaveInviteLink (channel memberWorld) \<and> \<not> canManageCall (channel memberWorld)
   \<and> Button lng_group_call_share settingsButton
        \<notin> set (rows (GroupCallSettingsBox env0 7 memberWorld))
   \<and> Button lng_group_call_end settingsAttentionButton
        \<notin> set (rows (GroupCallSettingsBox env0 7 memberWorld))"
proof -
  have a: "lookupLink env0 (channel adminWorld) = [] \<and> canHaveInviteLink (channel adminWorld)
      \<and> canManageCall (channel adminWorld)"
    by (simp add: lookupLink_def env0_def call0_def adminChannel_def memberChannel_def adminWorld_def memberWorld_def)
  have m: "lookupLink env0 (channel memberWorld) = [] \<and> \<not> canHaveInviteLink (channel memberWorld)
      \<and> \<not> canManageCall (channel memberWorld)"
    by (simp add: lookupLink_def env0_def call0_def adminChannel_def memberChannel_def adminWorld_def memberWorld_def)
  from a rows_of_box [of env0 7 adminWorld]
  have c1: "LevelMeter \<in> set (rows (GroupCallSettingsBox env0 7 adminWorld))
      \<and> Button lng_group_call_share settingsButton
           \<in> set (rows (GroupCallSettingsBox env0 7 adminWorld))
      \<and> Button lng_group_call_end settingsAttentionButton
           \<in> set (rows (GroupCallSettingsBox env0 7 adminWorld))"
    by blast
  from m rows_of_box [of env0 7 memberWorld]
  have c2: "Button lng_group_call_share settingsButton
           \<notin> set (rows (GroupCallSettingsBox env0 7 memberWorld))
      \<and> Button lng_group_call_end settingsAttentionButton
           \<notin> set (rows (GroupCallSettingsBox env0 7 memberWorld))"
    by blast
  from a m c1 c2 show ?thesis by simp
qed

text \<open>
  Claim C7 as stated, that every call gets the share row and the end-call row, fails for a
  plain member of a private channel: the box then has the two device rows, the level
  meter and a skip, and nothing else.
\<close>

theorem rows_not_always_all:
  "rows (GroupCallSettingsBox env0 7 memberWorld) =
     [ButtonWithLabel lng_group_call_speakers settingsButton,
      ButtonWithLabel lng_group_call_microphone settingsButton,
      LevelMeter,
      Skip]
   \<and> Button lng_group_call_share settingsButton
        \<notin> set (rows (GroupCallSettingsBox env0 7 memberWorld))
   \<and> Button lng_group_call_end settingsAttentionButton
        \<notin> set (rows (GroupCallSettingsBox env0 7 memberWorld))"
  by (simp add: GroupCallSettingsBox_def Let_def lookupLink_def env0_def call0_def memberChannel_def memberWorld_def)

subsection \<open>Closing the box\<close>

text \<open>
  Claim C2, as the code has it. The closing handler calls \<open>SaveCallJoinMuted\<close> exactly when
  join-muted was changeable at opening, the checkbox exists and its state differs from the
  value captured at opening; in every other case closing leaves the world as it was, so no
  request is sent. The call persists the setting only if the guards of \<open>SaveCallJoinMuted\<close>
  pass on the channel as it is at closing: the current call still has the id of the box,
  the user can manage the call, join-muted can be changed and the call's value differs
  from the checkbox state. So closing sends a request if and only if the three captured
  conditions and these guards all hold; it then sets join-muted on the call and sends the
  one \<^verbatim>\<open>ToggleGroupCallSettings\<close> request with the checkbox state, and otherwise changes
  nothing. The Done button closes the box through this handler. When nothing happens
  between opening, setting the checkbox to \<open>b\<close> and Done, the three conditions alone
  decide whether the request goes out.
\<close>

theorem boxClosing_saves:
  "(\<not> (canChangeJoinMuted_box d
          \<and> (\<exists>checked. muteJoined d = Some checked \<and> checked \<noteq> joinMuted_box d))
      \<longrightarrow> boxClosing d w = w)
   \<and> (\<forall>checked c.
        canChangeJoinMuted_box d \<and> muteJoined d = Some checked \<and> checked \<noteq> joinMuted_box d
        \<and> call (channel w) = Some c \<and> id_call c = id_box d \<and> canManageCall (channel w)
        \<and> canChangeJoinMuted c \<and> joinMuted c \<noteq> checked
      \<longrightarrow> boxClosing d w =
            w\<lparr>channel := (channel w)\<lparr>call := Some (c\<lparr>joinMuted := checked\<rparr>)\<rparr>,
              requests := requests w
                @ [MTPphone_ToggleGroupCallSettings {f_join_muted} (input_call c) checked]\<rparr>)
   \<and> (\<forall>checked.
        muteJoined d = Some checked
        \<and> (call (channel w) = None
            \<or> (\<exists>c. call (channel w) = Some c
                  \<and> (id_call c \<noteq> id_box d \<or> \<not> canManageCall (channel w)
                       \<or> \<not> canChangeJoinMuted c \<or> joinMuted c = checked)))
      \<longrightarrow> boxClosing d w = w)
   \<and> (requests (boxClosing d w) \<noteq> requests w
        \<longleftrightarrow> canChangeJoinMuted_box d
            \<and> (\<exists>checked c. muteJoined d = Some checked \<and> checked \<noteq> joinMuted_box d
                  \<and> call (channel w) = Some c \<and> id_call c = id_box d
                  \<and> canManageCall (channel w) \<and> canChangeJoinMuted c
                  \<and> joinMuted c \<noteq> checked))
   \<and> (weakBox d \<longrightarrow> step e DoneClicked (d, w) = (d\<lparr>weakBox := False\<rparr>, boxClosing d w))
   \<and> (requests (snd (run e [SetChecked b, DoneClicked] (openBox e callId w))) \<noteq> requests w
        \<longleftrightarrow> canChangeJoinMuted_box (GroupCallSettingsBox e callId w)
            \<and> muteJoined (GroupCallSettingsBox e callId w) \<noteq> None
            \<and> b \<noteq> joinMuted_box (GroupCallSettingsBox e callId w))
   \<and> (canChangeJoinMuted_box (GroupCallSettingsBox e callId w)
        \<and> muteJoined (GroupCallSettingsBox e callId w) \<noteq> None
        \<and> b \<noteq> joinMuted_box (GroupCallSettingsBox e callId w)
      \<longrightarrow> (\<exists>c. call (channel w) = Some c
             \<and> requests (snd (run e [SetChecked b, DoneClicked] (openBox e callId w)))
                 = requests w
                   @ [MTPphone_ToggleGroupCallSettings {f_join_muted} (input_call c) b]))"
proof -
  have 1: "\<not> (canChangeJoinMuted_box d
          \<and> (\<exists>checked. muteJoined d = Some checked \<and> checked \<noteq> joinMuted_box d))
      \<longrightarrow> boxClosing d w = w"
    by (auto simp: boxClosing_def split: option.splits)
  have 2: "\<forall>checked c.
        canChangeJoinMuted_box d \<and> muteJoined d = Some checked \<and> checked \<noteq> joinMuted_box d
        \<and> call (channel w) = Some c \<and> id_call c = id_box d \<and> canManageCall (channel w)
        \<and> canChangeJoinMuted c \<and> joinMuted c \<noteq> checked
      \<longrightarrow> boxClosing d w =
            w\<lparr>channel := (channel w)\<lparr>call := Some (c\<lparr>joinMuted := checked\<rparr>)\<rparr>,
              requests := requests w
                @ [MTPphone_ToggleGroupCallSettings {f_join_muted} (input_call c) checked]\<rparr>"
    by (simp add: boxClosing_def SaveCallJoinMuted_def send_def setJoinMutedLocally_def)
  have 3: "\<forall>checked.
        muteJoined d = Some checked
        \<and> (call (channel w) = None
            \<or> (\<exists>c. call (channel w) = Some c
                  \<and> (id_call c \<noteq> id_box d \<or> \<not> canManageCall (channel w)
                       \<or> \<not> canChangeJoinMuted c \<or> joinMuted c = checked)))
      \<longrightarrow> boxClosing d w = w"
    by (auto simp: boxClosing_def SaveCallJoinMuted_def)
  have 4: "requests (boxClosing d w) \<noteq> requests w
        \<longleftrightarrow> canChangeJoinMuted_box d
            \<and> (\<exists>checked c. muteJoined d = Some checked \<and> checked \<noteq> joinMuted_box d
                  \<and> call (channel w) = Some c \<and> id_call c = id_box d
                  \<and> canManageCall (channel w) \<and> canChangeJoinMuted c
                  \<and> joinMuted c \<noteq> checked)"
    by (auto simp: boxClosing_def SaveCallJoinMuted_def send_def split: option.splits)
  have 5: "weakBox d \<longrightarrow> step e DoneClicked (d, w) = (d\<lparr>weakBox := False\<rparr>, boxClosing d w)"
    by (simp add: closeBox_def)
  have 6: "requests (snd (run e [SetChecked b, DoneClicked] (openBox e callId w))) \<noteq> requests w
        \<longleftrightarrow> canChangeJoinMuted_box (GroupCallSettingsBox e callId w)
            \<and> muteJoined (GroupCallSettingsBox e callId w) \<noteq> None
            \<and> b \<noteq> joinMuted_box (GroupCallSettingsBox e callId w)"
    by (auto simp: openBox_def GroupCallSettingsBox_def Let_def closeBox_def boxClosing_def
        SaveCallJoinMuted_def send_def split: option.splits if_splits)
  have 7: "canChangeJoinMuted_box (GroupCallSettingsBox e callId w)
        \<and> muteJoined (GroupCallSettingsBox e callId w) \<noteq> None
        \<and> b \<noteq> joinMuted_box (GroupCallSettingsBox e callId w)
      \<longrightarrow> (\<exists>c. call (channel w) = Some c
             \<and> requests (snd (run e [SetChecked b, DoneClicked] (openBox e callId w)))
                 = requests w
                   @ [MTPphone_ToggleGroupCallSettings {f_join_muted} (input_call c) b])"
    by (auto simp: openBox_def GroupCallSettingsBox_def Let_def closeBox_def boxClosing_def
        SaveCallJoinMuted_def send_def split: option.splits if_splits)
  from 1 2 3 4 5 6 7 show ?thesis by blast
qed

theorem boxClosing_saves_witness:
  "canChangeJoinMuted_box (fst (step env0 (SetChecked True) (openBox env0 7 adminWorld)))
   \<and> muteJoined (fst (step env0 (SetChecked True) (openBox env0 7 adminWorld))) = Some True
   \<and> True \<noteq> joinMuted_box (fst (step env0 (SetChecked True) (openBox env0 7 adminWorld)))
   \<and> call (channel adminWorld) = Some call0 \<and> id_call call0 = 7
   \<and> canManageCall (channel adminWorld) \<and> canChangeJoinMuted call0 \<and> joinMuted call0 \<noteq> True
   \<and> requests
        (boxClosing (fst (step env0 (SetChecked True) (openBox env0 7 adminWorld))) adminWorld)
       = [MTPphone_ToggleGroupCallSettings {f_join_muted} (MTP_inputGroupCall 7 99) True]
   \<and> call (channel
        (boxClosing (fst (step env0 (SetChecked True) (openBox env0 7 adminWorld))) adminWorld))
       = Some (call0\<lparr>joinMuted := True\<rparr>)
   \<and> \<not> canManageCall (channel (adminWorld\<lparr>channel := revokedChannel\<rparr>))
   \<and> boxClosing (fst (step env0 (SetChecked True) (openBox env0 7 adminWorld)))
        (adminWorld\<lparr>channel := revokedChannel\<rparr>)
       = adminWorld\<lparr>channel := revokedChannel\<rparr>
   \<and> requests (snd (run env0 [SetChecked True, DoneClicked] (openBox env0 7 adminWorld)))
       = [MTPphone_ToggleGroupCallSettings {f_join_muted} (MTP_inputGroupCall 7 99) True]
   \<and> muteJoined (GroupCallSettingsBox env0 7 memberWorld) = None
   \<and> boxClosing (GroupCallSettingsBox env0 7 memberWorld) memberWorld = memberWorld
   \<and> weakBox (GroupCallSettingsBox env0 7 memberWorld)
   \<and> snd (step env0 DoneClicked (openBox env0 7 memberWorld)) = memberWorld"
proof -
  let ?d0 = "GroupCallSettingsBox env0 7 adminWorld"
  let ?d1 = "fst (step env0 (SetChecked True) (openBox env0 7 adminWorld))"
  let ?m = "GroupCallSettingsBox env0 7 memberWorld"
  let ?rw = "adminWorld\<lparr>channel := revokedChannel\<rparr>"
  have h1: "canChangeJoinMuted_box ?d1 \<and> muteJoined ?d1 = Some True
      \<and> True \<noteq> joinMuted_box ?d1 \<and> id_box ?d1 = 7"
    by (simp add: openBox_def GroupCallSettingsBox_def Let_def call0_def adminChannel_def
        adminWorld_def)
  have h0: "canChangeJoinMuted_box ?d0 \<and> muteJoined ?d0 \<noteq> None \<and> True \<noteq> joinMuted_box ?d0"
    by (simp add: GroupCallSettingsBox_def Let_def call0_def adminChannel_def adminWorld_def)
  have hm: "muteJoined ?m = None \<and> weakBox ?m"
    by (simp add: GroupCallSettingsBox_def Let_def call0_def memberChannel_def memberWorld_def)
  have cw: "call (channel adminWorld) = Some call0 \<and> id_call call0 = 7
      \<and> canManageCall (channel adminWorld) \<and> canChangeJoinMuted call0
      \<and> joinMuted call0 \<noteq> True"
    by (simp add: call0_def adminChannel_def adminWorld_def)
  have cv: "requests adminWorld = [] \<and> input_call call0 = MTP_inputGroupCall 7 99"
    by (simp add: call0_def adminChannel_def adminWorld_def)
  have hr: "call (channel ?rw) = Some call0 \<and> \<not> canManageCall (channel ?rw)"
    by (simp add: revokedChannel_def call0_def adminChannel_def)
  note t = boxClosing_saves [where d = ?d1 and w = adminWorld and e = env0 and b = True
      and callId = 7]
  from h1 cw t
  have "boxClosing ?d1 adminWorld =
      adminWorld\<lparr>channel := (channel adminWorld)\<lparr>call := Some (call0\<lparr>joinMuted := True\<rparr>)\<rparr>,
        requests := requests adminWorld
          @ [MTPphone_ToggleGroupCallSettings {f_join_muted} (input_call call0) True]\<rparr>"
    by metis
  with cv have c1: "requests (boxClosing ?d1 adminWorld)
       = [MTPphone_ToggleGroupCallSettings {f_join_muted} (MTP_inputGroupCall 7 99) True]
      \<and> call (channel (boxClosing ?d1 adminWorld)) = Some (call0\<lparr>joinMuted := True\<rparr>)"
    by simp
  from h1 hr boxClosing_saves [where d = ?d1 and w = ?rw and e = env0 and b = True
      and callId = 7]
  have c2: "boxClosing ?d1 ?rw = ?rw" by blast
  from h0 cw cv t
  have c3: "requests (snd (run env0 [SetChecked True, DoneClicked] (openBox env0 7 adminWorld)))
       = [MTPphone_ToggleGroupCallSettings {f_join_muted} (MTP_inputGroupCall 7 99) True]"
    by auto
  from hm boxClosing_saves [where d = ?m and w = memberWorld and e = env0 and b = True
      and callId = 7]
  have c4: "boxClosing ?m memberWorld = memberWorld
      \<and> step env0 DoneClicked (?m, memberWorld)
          = (?m\<lparr>weakBox := False\<rparr>, boxClosing ?m memberWorld)"
    by simp
  from h1 cw hr hm c1 c2 c3 c4 show ?thesis by (simp add: openBox_def)
qed

text \<open>
  Claim C2 as stated, that the setting is persisted whenever the three captured conditions
  hold, fails when the channel changes while the box is open. The administrator opens the
  box and ticks the checkbox; before Done, either the right to manage the call is
  withdrawn, or join-muted is already set on the call from elsewhere. At closing the box
  is alive and the three conditions hold, yet no request is sent and the call is left as
  the channel change made it.
\<close>

theorem closing_not_always_persisted:
  "weakBox (fst (run env0 [SetChecked True, ChannelChanged revokedChannel]
                   (openBox env0 7 adminWorld)))
   \<and> canChangeJoinMuted_box
        (fst (run env0 [SetChecked True, ChannelChanged revokedChannel]
                (openBox env0 7 adminWorld)))
   \<and> muteJoined (fst (run env0 [SetChecked True, ChannelChanged revokedChannel]
                        (openBox env0 7 adminWorld))) = Some True
   \<and> joinMuted_box (fst (run env0 [SetChecked True, ChannelChanged revokedChannel]
                           (openBox env0 7 adminWorld))) = False
   \<and> requests (snd (run env0 [SetChecked True, ChannelChanged revokedChannel, DoneClicked]
                      (openBox env0 7 adminWorld))) = []
   \<and> call (channel (snd (run env0 [SetChecked True, ChannelChanged revokedChannel, DoneClicked]
                             (openBox env0 7 adminWorld)))) = Some call0
   \<and> joinMuted call0 = False
   \<and> canChangeJoinMuted_box
        (fst (run env0 [SetChecked True, ChannelChanged mutedChannel]
                (openBox env0 7 adminWorld)))
   \<and> muteJoined (fst (run env0 [SetChecked True, ChannelChanged mutedChannel]
                        (openBox env0 7 adminWorld))) = Some True
   \<and> joinMuted_box (fst (run env0 [SetChecked True, ChannelChanged mutedChannel]
                           (openBox env0 7 adminWorld))) = False
   \<and> requests (snd (run env0 [SetChecked True, ChannelChanged mutedChannel, DoneClicked]
                      (openBox env0 7 adminWorld))) = []"
  by (simp add: openBox_def GroupCallSettingsBox_def Let_def closeBox_def boxClosing_def
      SaveCallJoinMuted_def env0_def call0_def adminChannel_def adminWorld_def
      revokedChannel_def mutedChannel_def)

subsection \<open>The share button\<close>

text \<open>Neither \<open>copyLink\<close> nor the answer to the export request sends anything.\<close>

lemma requests_copyLink: "requests (snd (copyLink e alive w)) = requests w"
  by (simp add: copyLink_def Let_def)

lemma requests_exportDone: "requests (exportDone e alive result w) = requests w"
  by (cases result) (simp_all add: exportDone_def requests_copyLink)

text \<open>
  Claim C3, as the code has it. A click on the share button: if a link can be looked up,
  it is copied and no request is sent; if no link exists and no generation is in progress,
  the flag is set and exactly one \<^verbatim>\<open>ExportChatInvite\<close> request for the channel is sent.
  When the answer has type \<open>chatInviteExported\<close>, the invite link of the channel is set to
  the returned link and \<open>copyLink\<close> runs again on the updated channel, sending nothing:
  the clipboard receives the returned link if the channel then has no username and the
  link is not empty, stays as it was if the channel has no username and the link is
  empty, and receives the public link if the channel has a username by then.
\<close>

theorem share_click:
  "(lookupLink e (channel w) \<noteq> [] \<longrightarrow>
      fst (shareClicked e (d, w)) = d
      \<and> clipboard (snd (shareClicked e (d, w))) = lookupLink e (channel w)
      \<and> requests (snd (shareClicked e (d, w))) = requests w)
   \<and> (lookupLink e (channel w) = [] \<and> \<not> generatingLink d \<longrightarrow>
        shareClicked e (d, w) =
          (d\<lparr>generatingLink := True\<rparr>,
           w\<lparr>requests := requests w
                @ [MTPmessages_ExportChatInvite (input_channel (channel w))]\<rparr>))
   \<and> (weakBox d \<and> Button lng_group_call_share settingsButton \<in> set (rows d) \<longrightarrow>
        step e ShareClicked (d, w) = shareClicked e (d, w))
   \<and> step e (ExportDone result) (d, w) = (d, exportDone e (weakBox d) result w)
   \<and> exportDone e alive (chatInviteExported link) w =
        snd (copyLink e alive (w\<lparr>channel := (channel w)\<lparr>inviteLink := link\<rparr>\<rparr>))
   \<and> inviteLink (channel (exportDone e alive (chatInviteExported link) w)) = link
   \<and> requests (exportDone e alive (chatInviteExported link) w) = requests w
   \<and> (\<not> hasUsername (channel w) \<and> link \<noteq> [] \<longrightarrow>
        clipboard (exportDone e alive (chatInviteExported link) w) = link)
   \<and> (\<not> hasUsername (channel w) \<and> link = [] \<longrightarrow>
        clipboard (exportDone e alive (chatInviteExported link) w) = clipboard w)
   \<and> (hasUsername (channel w) \<and> createInternalLinkFull e (username (channel w)) \<noteq> [] \<longrightarrow>
        clipboard (exportDone e alive (chatInviteExported link) w)
          = createInternalLinkFull e (username (channel w)))"
proof -
  have 1: "lookupLink e (channel w) \<noteq> [] \<longrightarrow>
      fst (shareClicked e (d, w)) = d
      \<and> clipboard (snd (shareClicked e (d, w))) = lookupLink e (channel w)
      \<and> requests (snd (shareClicked e (d, w))) = requests w"
    by (simp add: shareClicked_def copyLink_def Let_def)
  have 2: "lookupLink e (channel w) = [] \<and> \<not> generatingLink d \<longrightarrow>
        shareClicked e (d, w) =
          (d\<lparr>generatingLink := True\<rparr>,
           w\<lparr>requests := requests w
                @ [MTPmessages_ExportChatInvite (input_channel (channel w))]\<rparr>)"
    by (simp add: shareClicked_def copyLink_def Let_def send_def)
  have 3: "exportDone e alive (chatInviteExported link) w =
        snd (copyLink e alive (w\<lparr>channel := (channel w)\<lparr>inviteLink := link\<rparr>\<rparr>))"
    by (simp add: exportDone_def setInviteLink_def)
  have 4: "inviteLink (channel (exportDone e alive (chatInviteExported link) w)) = link"
    by (simp add: exportDone_def setInviteLink_def copyLink_def Let_def)
  have 5: "\<not> hasUsername (channel w) \<and> link \<noteq> [] \<longrightarrow>
        clipboard (exportDone e alive (chatInviteExported link) w) = link"
    by (simp add: exportDone_def setInviteLink_def copyLink_def lookupLink_def Let_def)
  have 6: "\<not> hasUsername (channel w) \<and> link = [] \<longrightarrow>
        clipboard (exportDone e alive (chatInviteExported link) w) = clipboard w"
    by (simp add: exportDone_def setInviteLink_def copyLink_def lookupLink_def Let_def)
  have 7: "hasUsername (channel w) \<and> createInternalLinkFull e (username (channel w)) \<noteq> [] \<longrightarrow>
        clipboard (exportDone e alive (chatInviteExported link) w)
          = createInternalLinkFull e (username (channel w))"
    by (simp add: exportDone_def setInviteLink_def copyLink_def lookupLink_def Let_def)
  have 8: "requests (exportDone e alive (chatInviteExported link) w) = requests w"
    by (rule requests_exportDone)
  have 9: "weakBox d \<and> Button lng_group_call_share settingsButton \<in> set (rows d) \<longrightarrow>
        step e ShareClicked (d, w) = shareClicked e (d, w)"
    by simp
  have 10: "step e (ExportDone result) (d, w) = (d, exportDone e (weakBox d) result w)"
    by simp
  from 1 2 3 4 5 6 7 8 9 10 show ?thesis by blast
qed

theorem share_click_witness:
  "lookupLink env0 (channel linkWorld) \<noteq> []
   \<and> clipboard (snd (shareClicked env0 (GroupCallSettingsBox env0 7 linkWorld, linkWorld)))
       = ''https://t.me/joinchat/AAAA''
   \<and> requests (snd (shareClicked env0 (GroupCallSettingsBox env0 7 linkWorld, linkWorld))) = []
   \<and> lookupLink env0 (channel adminWorld) = []
   \<and> \<not> generatingLink (GroupCallSettingsBox env0 7 adminWorld)
   \<and> requests (snd (shareClicked env0 (GroupCallSettingsBox env0 7 adminWorld, adminWorld)))
       = [MTPmessages_ExportChatInvite (MTP_inputChannel 5 11)]
   \<and> generatingLink (fst (shareClicked env0 (GroupCallSettingsBox env0 7 adminWorld, adminWorld)))
   \<and> \<not> hasUsername (channel adminWorld)
   \<and> clipboard (exportDone env0 True (chatInviteExported ''https://t.me/joinchat/AAAA'') adminWorld)
       = ''https://t.me/joinchat/AAAA''
   \<and> inviteLink (channel
        (exportDone env0 True (chatInviteExported ''https://t.me/joinchat/AAAA'') adminWorld))
       = ''https://t.me/joinchat/AAAA''
   \<and> clipboard (exportDone env0 True (chatInviteExported []) adminWorld) = ''old''
   \<and> hasUsername (channel (adminWorld\<lparr>channel := publicChannel\<rparr>))
   \<and> clipboard
        (exportDone env0 True (chatInviteExported ''https://t.me/joinchat/AAAA'')
           (adminWorld\<lparr>channel := publicChannel\<rparr>))
       = ''https://t.me/chat''
   \<and> weakBox (GroupCallSettingsBox env0 7 adminWorld)
   \<and> Button lng_group_call_share settingsButton
        \<in> set (rows (GroupCallSettingsBox env0 7 adminWorld))
   \<and> step env0 ShareClicked (GroupCallSettingsBox env0 7 adminWorld, adminWorld)
       = shareClicked env0 (GroupCallSettingsBox env0 7 adminWorld, adminWorld)"
proof -
  let ?dl = "GroupCallSettingsBox env0 7 linkWorld"
  let ?da = "GroupCallSettingsBox env0 7 adminWorld"
  let ?l = "''https://t.me/joinchat/AAAA''"
  have l: "lookupLink env0 (channel linkWorld) = ?l"
    by (simp add: lookupLink_def env0_def call0_def adminChannel_def adminWorld_def linkWorld_def)
  then have h1: "lookupLink env0 (channel linkWorld) \<noteq> []" by simp
  have h2: "lookupLink env0 (channel adminWorld) = [] \<and> \<not> generatingLink ?da"
    by (simp add: lookupLink_def GroupCallSettingsBox_def Let_def env0_def call0_def adminChannel_def adminWorld_def linkWorld_def)
  have h3: "\<not> hasUsername (channel adminWorld) \<and> ?l \<noteq> []"
    by (simp add: env0_def call0_def adminChannel_def adminWorld_def linkWorld_def)
  have r: "requests linkWorld = [] \<and> requests adminWorld = []
      \<and> input_channel (channel adminWorld) = MTP_inputChannel 5 11"
    by (simp add: env0_def call0_def adminChannel_def adminWorld_def linkWorld_def)
  from h1 l r share_click [where e = env0 and w = linkWorld and d = ?dl]
  have c1: "clipboard (snd (shareClicked env0 (?dl, linkWorld))) = ?l
      \<and> requests (snd (shareClicked env0 (?dl, linkWorld))) = []"
    by simp
  from h2 share_click [where e = env0 and w = adminWorld and d = ?da]
  have "shareClicked env0 (?da, adminWorld) =
          (?da\<lparr>generatingLink := True\<rparr>,
           adminWorld\<lparr>requests := requests adminWorld
                @ [MTPmessages_ExportChatInvite (input_channel (channel adminWorld))]\<rparr>)"
    by blast
  with r have c2: "requests (snd (shareClicked env0 (?da, adminWorld)))
       = [MTPmessages_ExportChatInvite (MTP_inputChannel 5 11)]
      \<and> generatingLink (fst (shareClicked env0 (?da, adminWorld)))"
    by simp
  from h3 share_click [where e = env0 and w = adminWorld and alive = True and link = ?l]
  have c3: "clipboard (exportDone env0 True (chatInviteExported ?l) adminWorld) = ?l
      \<and> inviteLink (channel (exportDone env0 True (chatInviteExported ?l) adminWorld)) = ?l"
    by blast
  have h4: "\<not> hasUsername (channel adminWorld) \<and> clipboard adminWorld = ''old''"
    by (simp add: call0_def adminChannel_def adminWorld_def)
  from h4 share_click [where e = env0 and w = adminWorld and alive = True and link = "[]"]
  have "clipboard (exportDone env0 True (chatInviteExported []) adminWorld)
      = clipboard adminWorld"
    by blast
  with h4 have c4: "clipboard (exportDone env0 True (chatInviteExported []) adminWorld) = ''old''"
    by (simp only:)
  let ?pw = "adminWorld\<lparr>channel := publicChannel\<rparr>"
  have h5: "hasUsername (channel ?pw)
      \<and> createInternalLinkFull env0 (username (channel ?pw)) = ''https://t.me/chat''"
    by (simp add: env0_def call0_def adminChannel_def publicChannel_def)
  then have h5': "hasUsername (channel ?pw)
      \<and> createInternalLinkFull env0 (username (channel ?pw)) \<noteq> []"
    by simp
  from h5' share_click [where e = env0 and w = ?pw and alive = True and link = ?l]
  have "clipboard (exportDone env0 True (chatInviteExported ?l) ?pw)
      = createInternalLinkFull env0 (username (channel ?pw))"
    by blast
  with h5 have c5: "clipboard (exportDone env0 True (chatInviteExported ?l) ?pw)
      = ''https://t.me/chat''"
    by simp
  have h6: "weakBox ?da \<and> Button lng_group_call_share settingsButton \<in> set (rows ?da)"
    by (simp add: GroupCallSettingsBox_def Let_def call0_def adminChannel_def adminWorld_def)
  from h6 share_click [where e = env0 and w = adminWorld and d = ?da]
  have c6: "step env0 ShareClicked (?da, adminWorld) = shareClicked env0 (?da, adminWorld)"
    by blast
  from h1 h2 h3 h5 h6 c1 c2 c3 c4 c5 c6 show ?thesis by blast
qed

text \<open>
  Claim C3 as stated, that the returned link is always the one copied, fails in two runs
  that start with a click on a channel without any link. In the first the server returns
  an empty link: the request was sent, the clipboard keeps its old text. In the second
  the channel gets a username before the answer arrives: the invite link is stored, and
  the clipboard receives the public link instead of the returned one.
\<close>

theorem returned_link_not_always_copied:
  "requests (snd (run env0 [ShareClicked, ExportDone (chatInviteExported [])]
                    (openBox env0 7 adminWorld)))
     = [MTPmessages_ExportChatInvite (MTP_inputChannel 5 11)]
   \<and> clipboard (snd (run env0 [ShareClicked, ExportDone (chatInviteExported [])]
                    (openBox env0 7 adminWorld)))
     = ''old''
   \<and> requests (snd (run env0
        [ShareClicked, ChannelChanged publicChannel,
         ExportDone (chatInviteExported ''https://t.me/joinchat/AAAA'')]
        (openBox env0 7 adminWorld)))
     = [MTPmessages_ExportChatInvite (MTP_inputChannel 5 11)]
   \<and> inviteLink (channel (snd (run env0
        [ShareClicked, ChannelChanged publicChannel,
         ExportDone (chatInviteExported ''https://t.me/joinchat/AAAA'')]
        (openBox env0 7 adminWorld))))
     = ''https://t.me/joinchat/AAAA''
   \<and> clipboard (snd (run env0
        [ShareClicked, ChannelChanged publicChannel,
         ExportDone (chatInviteExported ''https://t.me/joinchat/AAAA'')]
        (openBox env0 7 adminWorld)))
     = ''https://t.me/chat''
   \<and> clipboard (snd (run env0
        [ShareClicked, ChannelChanged publicChannel,
         ExportDone (chatInviteExported ''https://t.me/joinchat/AAAA'')]
        (openBox env0 7 adminWorld)))
     \<noteq> ''https://t.me/joinchat/AAAA''"
  by (simp add: openBox_def GroupCallSettingsBox_def Let_def shareClicked_def copyLink_def
      lookupLink_def send_def exportDone_def setInviteLink_def env0_def call0_def adminChannel_def publicChannel_def adminWorld_def)

subsection \<open>Export requests over the life of a box\<close>

text \<open>
  The flag never goes back to false, and each step adds to the log exactly as many export
  requests as the flag accounts for.
\<close>

lemmas handler_defs =
  guard_def outputNameCallback_def inputNameCallback_def speakersClicked_def
  microphoneClicked_def levelUpdate_def animationCallback_def endClicked_def closeBox_def

lemma generatingLink_step:
  "generatingLink d \<Longrightarrow> generatingLink (fst (step e ev (d, w)))"
  by (cases ev) (simp_all add: handler_defs shareClicked_def Let_def split: prod.splits)

lemma exports_channel_update: "exports (w\<lparr>channel := c\<rparr>) = exports w"
  by (simp add: exports_def)

lemma exports_SaveCallJoinMuted: "exports (SaveCallJoinMuted w callId muted) = exports w"
  by (simp add: SaveCallJoinMuted_def exports_def send_def split: option.splits)

lemma exports_boxClosing: "exports (boxClosing d w) = exports w"
  by (simp add: boxClosing_def exports_SaveCallJoinMuted split: option.splits)

lemma exports_exportDone: "exports (exportDone e alive result w) = exports w"
  by (simp add: exports_def requests_exportDone)

lemma exports_shareClicked:
  "shareClicked e (d, w) = (d', w') \<Longrightarrow> exports w' + pending d = exports w + pending d'"
  by (auto simp: shareClicked_def exports_def pending_def send_def copyLink_def Let_def
      split: prod.splits if_splits)

lemma exports_step:
  "step e ev (d, w) = (d', w') \<Longrightarrow> exports w' + pending d = exports w + pending d'"
  by (cases ev)
     (auto simp: handler_defs Let_def pending_def exports_boxClosing exports_exportDone
        exports_channel_update
        dest: exports_shareClicked split: if_splits)

lemma exports_run:
  "run e evs (d, w) = (d', w') \<Longrightarrow> exports w' + pending d = exports w + pending d'"
proof (induction evs arbitrary: d w)
  case Nil
  then show ?case by simp
next
  case (Cons ev evs)
  obtain d1 w1 where s: "step e ev (d, w) = (d1, w1)" by (cases "step e ev (d, w)")
  with Cons.prems have "run e evs (d1, w1) = (d', w')" by simp
  then have "exports w' + pending d1 = exports w1 + pending d'" by (rule Cons.IH)
  moreover from s have "exports w1 + pending d = exports w + pending d1" by (rule exports_step)
  ultimately show ?case by simp
qed

text \<open>
  Claim C8. A click that finds no link while the flag is false sets the flag and issues
  one \<^verbatim>\<open>ExportChatInvite\<close> request. Once the flag is set, no event resets it and no event
  or run of events issues another such request: not a further click, and not an answer of
  any type or a failure of the first request. Hence over any run of events from the
  opening of a box, the box issues at most one \<^verbatim>\<open>ExportChatInvite\<close> request, namely one
  exactly if its flag is set at the end.
\<close>

theorem export_at_most_once:
  "(lookupLink e (channel w) = [] \<and> \<not> generatingLink d \<longrightarrow>
      generatingLink (fst (shareClicked e (d, w)))
      \<and> exports (snd (shareClicked e (d, w))) = exports w + 1)
   \<and> (generatingLink d \<longrightarrow>
        generatingLink (fst (step e ev (d, w)))
        \<and> exports (snd (step e ev (d, w))) = exports w)
   \<and> (generatingLink d \<longrightarrow>
        generatingLink (fst (run e evs (d, w)))
        \<and> exports (snd (run e evs (d, w))) = exports w)
   \<and> exports (snd (run e evs (openBox e callId w)))
       = exports w + pending (fst (run e evs (openBox e callId w)))
   \<and> exports (snd (run e evs (openBox e callId w))) \<le> exports w + 1"
proof -
  have 1: "lookupLink e (channel w) = [] \<and> \<not> generatingLink d \<longrightarrow>
      generatingLink (fst (shareClicked e (d, w)))
      \<and> exports (snd (shareClicked e (d, w))) = exports w + 1"
    by (simp add: shareClicked_def copyLink_def Let_def exports_def send_def)
  have run_flag: "generatingLink (fst (run e evs s))" if "generatingLink (fst s)" for evs s
    using that
  proof (induction evs arbitrary: s)
    case Nil
    then show ?case by simp
  next
    case (Cons ev evs)
    from Cons.prems have "generatingLink (fst (step e ev s))"
      by (cases s) (simp add: generatingLink_step)
    then show ?case by (simp add: Cons.IH)
  qed
  have keep: "exports (snd (run e evs (d, w))) = exports w" if g: "generatingLink d" for evs
  proof -
    obtain d' w' where r: "run e evs (d, w) = (d', w')" by (cases "run e evs (d, w)")
    from g run_flag [of "(d, w)" evs] r have "generatingLink d'" by simp
    with g exports_run [OF r] show ?thesis by (simp add: r pending_def)
  qed
  have 2: "generatingLink d \<longrightarrow>
        generatingLink (fst (step e ev (d, w)))
        \<and> exports (snd (step e ev (d, w))) = exports w"
    using keep [of "[ev]"] by (simp add: generatingLink_step)
  have 3: "generatingLink d \<longrightarrow>
        generatingLink (fst (run e evs (d, w)))
        \<and> exports (snd (run e evs (d, w))) = exports w"
    using keep [of evs] run_flag [of "(d, w)" evs] by simp
  have 4: "exports (snd (run e evs (openBox e callId w)))
       = exports w + pending (fst (run e evs (openBox e callId w)))"
  proof -
    obtain d' w' where r: "run e evs (GroupCallSettingsBox e callId w, w) = (d', w')"
      by (cases "run e evs (GroupCallSettingsBox e callId w, w)")
    have "pending (GroupCallSettingsBox e callId w) = 0"
      by (simp add: pending_def GroupCallSettingsBox_def Let_def)
    with exports_run [OF r] show ?thesis by (simp add: openBox_def r)
  qed
  have 5: "exports (snd (run e evs (openBox e callId w))) \<le> exports w + 1"
    by (simp add: 4 pending_def)
  from 1 2 3 4 5 show ?thesis by blast
qed

theorem export_at_most_once_witness:
  "lookupLink env0 (channel adminWorld) = []
   \<and> \<not> generatingLink (fst (openBox env0 7 adminWorld))
   \<and> generatingLink (fst (shareClicked env0 (openBox env0 7 adminWorld)))
   \<and> exports (snd (shareClicked env0 (openBox env0 7 adminWorld))) = 1
   \<and> exports (snd (run env0 [ExportDone chatInviteEmpty, ShareClicked, ExportFail, ShareClicked]
                      (shareClicked env0 (openBox env0 7 adminWorld)))) = 1
   \<and> exports (snd (run env0
        [ShareClicked, ExportDone chatInviteEmpty, ShareClicked, ExportFail, ShareClicked]
        (openBox env0 7 adminWorld))) \<le> 1"
proof -
  let ?d = "GroupCallSettingsBox env0 7 adminWorld"
  let ?s = "shareClicked env0 (?d, adminWorld)"
  let ?evs = "[ExportDone chatInviteEmpty, ShareClicked, ExportFail, ShareClicked]"
  have h: "lookupLink env0 (channel adminWorld) = [] \<and> \<not> generatingLink ?d"
    by (simp add: lookupLink_def GroupCallSettingsBox_def Let_def env0_def call0_def adminChannel_def adminWorld_def)
  have x: "exports adminWorld = 0" by (simp add: exports_def env0_def call0_def adminChannel_def adminWorld_def)
  from h x export_at_most_once [where e = env0 and w = adminWorld and d = ?d]
  have c1: "generatingLink (fst ?s) \<and> exports (snd ?s) = 1" by simp
  from c1 export_at_most_once [where e = env0 and d = "fst ?s" and w = "snd ?s" and evs = ?evs]
  have "exports (snd (run env0 ?evs (fst ?s, snd ?s))) = exports (snd ?s)" by blast
  with c1 have c2: "exports (snd (run env0 ?evs ?s)) = 1" by simp
  from export_at_most_once [where e = env0 and w = adminWorld and callId = 7
      and evs = "ShareClicked # ?evs"]
  have "exports (snd (run env0 (ShareClicked # ?evs) (openBox env0 7 adminWorld)))
      \<le> exports adminWorld + 1"
    by blast
  then have c3: "exports (snd (run env0 (ShareClicked # ?evs) (openBox env0 7 adminWorld))) \<le> 1"
    unfolding x by simp
  from h c1 c2 c3 show ?thesis by (simp add: openBox_def)
qed

subsection \<open>The stale-call guard\<close>

text \<open>
  The captured \<open>canChangeJoinMuted\<close> is a constant of the box; while it is false no event
  sends a join-muted update.
\<close>

lemma canChangeJoinMuted_box_step:
  "canChangeJoinMuted_box (fst (step e ev (d, w))) = canChangeJoinMuted_box d"
  by (cases ev) (simp_all add: handler_defs shareClicked_def Let_def split: prod.splits)

lemma toggles_shareClicked: "toggles (snd (shareClicked e (d, w))) = toggles w"
  by (simp add: shareClicked_def copyLink_def Let_def toggles_def send_def)

lemma toggles_exportDone: "toggles (exportDone e alive result w) = toggles w"
  by (simp add: toggles_def requests_exportDone)

lemma toggles_channel_update: "toggles (w\<lparr>channel := c\<rparr>) = toggles w"
  by (simp add: toggles_def)

lemma toggles_step:
  "\<not> canChangeJoinMuted_box d \<Longrightarrow> toggles (snd (step e ev (d, w))) = toggles w"
  by (cases ev)
     (simp_all add: handler_defs Let_def boxClosing_def toggles_shareClicked
        toggles_exportDone toggles_channel_update)

lemma toggles_run:
  "\<not> canChangeJoinMuted_box (fst s) \<Longrightarrow> toggles (snd (run e evs s)) = toggles (snd s)"
proof (induction evs arbitrary: s)
  case Nil
  show ?case by simp
next
  case (Cons ev evs)
  obtain d w where s: "s = (d, w)" by (cases s)
  from Cons.prems s have "\<not> canChangeJoinMuted_box (fst (step e ev s))"
    by (simp add: canChangeJoinMuted_box_step)
  then have "toggles (snd (run e evs (step e ev s))) = toggles (snd (step e ev s))"
    by (rule Cons.IH)
  also from Cons.prems s have "\<dots> = toggles (snd s)" by (simp add: toggles_step)
  finally show ?case by simp
qed

text \<open>
  Claim C10. When the channel has no current call, or its id differs from the call id of
  the box, the box is built with \<open>joinMuted\<close> false and \<open>canChangeJoinMuted\<close> false and
  without the mute-joined checkbox; no event creates the checkbox later, and whatever
  happens to the box afterwards, no \<^verbatim>\<open>ToggleGroupCallSettings\<close> request is ever added to
  the log.
\<close>

theorem stale_call_never_saves:
  assumes "call (channel w) = None \<or> (\<exists>r. call (channel w) = Some r \<and> id_call r \<noteq> callId)"
  shows "joinMuted_box (GroupCallSettingsBox e callId w) = False
    \<and> canChangeJoinMuted_box (GroupCallSettingsBox e callId w) = False
    \<and> muteJoined (GroupCallSettingsBox e callId w) = None
    \<and> (\<forall>checked. Checkbox lng_group_call_new_muted checked
          \<notin> set (rows (GroupCallSettingsBox e callId w)))
    \<and> muteJoined (fst (run e evs (openBox e callId w))) = None
    \<and> toggles (snd (run e evs (openBox e callId w))) = toggles w"
proof -
  let ?d = "GroupCallSettingsBox e callId w"
  from assms have a: "joinMuted_box ?d = False \<and> canChangeJoinMuted_box ?d = False
      \<and> muteJoined ?d = None"
    by (auto simp: GroupCallSettingsBox_def Let_def)
  from assms have b: "\<forall>checked. Checkbox lng_group_call_new_muted checked \<notin> set (rows ?d)"
    by (auto simp: GroupCallSettingsBox_def Let_def)
  have m: "muteJoined (fst (run e evs s)) = None" if "muteJoined (fst s) = None" for s
    using that
  proof (induction evs arbitrary: s)
    case Nil
    then show ?case by simp
  next
    case (Cons ev evs)
    obtain d w where s: "s = (d, w)" by (cases s)
    from Cons.prems s have "muteJoined (fst (step e ev s)) = None"
      by (cases ev) (simp_all add: handler_defs shareClicked_def Let_def split: prod.splits)
    then show ?case by (simp add: Cons.IH)
  qed
  from a have c: "toggles (snd (run e evs (openBox e callId w))) = toggles w"
    using toggles_run [of "openBox e callId w" e evs] by (simp add: openBox_def)
  from a have d: "muteJoined (fst (run e evs (openBox e callId w))) = None"
    using m [of "openBox e callId w"] by (simp add: openBox_def)
  from a b c d show ?thesis by blast
qed

theorem stale_call_never_saves_witness:
  "call (channel adminWorld) = Some call0 \<and> id_call call0 \<noteq> 8
   \<and> muteJoined (GroupCallSettingsBox env0 8 adminWorld) = None
   \<and> canChangeJoinMuted_box (GroupCallSettingsBox env0 8 adminWorld) = False
   \<and> toggles (snd (run env0 [SetChecked True, EndClicked, DoneClicked]
                     (openBox env0 8 adminWorld))) = []"
proof -
  have h: "call (channel adminWorld) = Some call0 \<and> id_call call0 \<noteq> 8"
    by (simp add: env0_def call0_def adminChannel_def adminWorld_def)
  then have h': "call (channel adminWorld) = None
      \<or> (\<exists>r. call (channel adminWorld) = Some r \<and> id_call r \<noteq> 8)"
    by blast
  have t: "toggles adminWorld = []" by (simp add: toggles_def env0_def call0_def adminChannel_def adminWorld_def)
  from stale_call_never_saves [OF h', of env0 "[SetChecked True, EndClicked, DoneClicked]"] h t
  show ?thesis by simp
qed

end
